theory Spec2Isabelle
  imports Complex_Main "HOL-Library.Word" "HOL-Library.Sublist"
begin

section \<open>The headline detector of backend/fakeNewsDetector.ts (rule-based, weighted revision)\<close>

subsection \<open>Strings\<close>

text \<open>
  A JavaScript string is a sequence of 16-bit code units; \<open>length\<close> of the list is the
  string's \<open>.length\<close>. \<open>js\<close> turns an ASCII literal into such a sequence.
\<close>

type_synonym codeunit = "16 word"
type_synonym jsstring = "codeunit list"

definition js :: "string \<Rightarrow> jsstring" where
  "js s = map of_char s"

text \<open>
  The characters that \<open>String.prototype.trim\<close> strips and that \<open>\s\<close> matches in a
  regular expression: WhiteSpace (TAB, VT, FF, SP, NBSP, ZWNBSP and the other space
  separators) and LineTerminator (LF, CR, LS, PS).
\<close>

definition isWhiteSpace :: "codeunit \<Rightarrow> bool" where
  "isWhiteSpace c \<longleftrightarrow>
     c = 0x09 \<or> c = 0x0A \<or> c = 0x0B \<or> c = 0x0C \<or> c = 0x0D \<or> c = 0x20 \<or> c = 0xA0 \<or>
     c = 0x1680 \<or> (0x2000 \<le> c \<and> c \<le> 0x200A) \<or> c = 0x2028 \<or> c = 0x2029 \<or>
     c = 0x202F \<or> c = 0x205F \<or> c = 0x3000 \<or> c = 0xFEFF"

definition trim :: "jsstring \<Rightarrow> jsstring" where
  "trim s = rev (dropWhile isWhiteSpace (rev (dropWhile isWhiteSpace s)))"

text \<open>
  \<open>String.prototype.toLowerCase\<close> and \<open>toUpperCase\<close> follow the Unicode case
  tables of the JavaScript runtime, which are no part of the repository. On a string
  of ASCII code units they shift the letters by 32 and leave every other code unit as
  it is; this part is written out. On any other string they are what the runtime's
  tables say: the tables are a parameter \<open>U\<close> of the model, and every general
  statement below holds for all \<open>U\<close>.
\<close>

record CaseMapping =
  lowerOf :: "jsstring \<Rightarrow> jsstring"
  upperOf :: "jsstring \<Rightarrow> jsstring"

definition isAscii :: "jsstring \<Rightarrow> bool" where
  "isAscii s = list_all (\<lambda>c. c < 0x80) s"

definition toLowerCaseUnit :: "codeunit \<Rightarrow> codeunit" where
  "toLowerCaseUnit c = (if 0x41 \<le> c \<and> c \<le> 0x5A then c + 0x20 else c)"

definition toUpperCaseUnit :: "codeunit \<Rightarrow> codeunit" where
  "toUpperCaseUnit c = (if 0x61 \<le> c \<and> c \<le> 0x7A then c - 0x20 else c)"

definition toLowerCase :: "CaseMapping \<Rightarrow> jsstring \<Rightarrow> jsstring" where
  "toLowerCase U s = (if isAscii s then map toLowerCaseUnit s else lowerOf U s)"

definition toUpperCase :: "CaseMapping \<Rightarrow> jsstring \<Rightarrow> jsstring" where
  "toUpperCase U s = (if isAscii s then map toUpperCaseUnit s else upperOf U s)"

text \<open>
  A case mapping for the concrete headlines below, which are ASCII: it does not matter
  there what it does to other strings (\<open>detectHeadline_ascii\<close>).
\<close>

definition asciiCase :: CaseMapping where
  "asciiCase = \<lparr>lowerOf = map toLowerCaseUnit, upperOf = map toUpperCaseUnit\<rparr>"

text \<open>\<open>text.includes(item)\<close>: \<open>item\<close> starts at some position of \<open>text\<close>.\<close>

fun includes_js :: "jsstring \<Rightarrow> jsstring \<Rightarrow> bool" where
  "includes_js [] item = (item = [])"
| "includes_js (c # cs) item = (prefix item (c # cs) \<or> includes_js cs item)"

text \<open>\<open>arr.some((item) => text.includes(item))\<close>\<close>

definition containsAny :: "jsstring \<Rightarrow> jsstring list \<Rightarrow> bool" where
  "containsAny text arr = list_ex (\<lambda>item. includes_js text item) arr"

text \<open>
  \<open>s.split(/\s+/)\<close>: the pieces of \<open>s\<close> between the maximal runs of white space. A
  run at the start or at the end of \<open>s\<close> leaves an empty piece there, and the empty
  string splits into one empty piece.
\<close>

function split_ws :: "jsstring \<Rightarrow> jsstring list" where
  "split_ws s =
     (let w = takeWhile (\<lambda>c. \<not> isWhiteSpace c) s;
          r = dropWhile (\<lambda>c. \<not> isWhiteSpace c) s
      in if r = [] then [w] else w # split_ws (dropWhile isWhiteSpace r))"
  by pat_completeness auto
termination
proof (relation "measure length")
  show "wf (measure length)" by simp
next
  fix s :: jsstring and w r
  assume r: "r = dropWhile (\<lambda>c. \<not> isWhiteSpace c) s" and ne: "r \<noteq> []"
  from ne have "isWhiteSpace (hd r)"
    unfolding r using hd_dropWhile [of "\<lambda>c. \<not> isWhiteSpace c" s] by simp
  with ne have "length (dropWhile isWhiteSpace r) < length r"
    by (cases r) (simp_all add: less_Suc_eq_le length_dropWhile_le)
  moreover have "length r \<le> length s"
    unfolding r by (rule length_dropWhile_le)
  ultimately show "(dropWhile isWhiteSpace r, s) \<in> measure length"
    by simp
qed

declare split_ws.simps [simp del]

text \<open>
  \<open>s.match(/!/g)\<close>: the list of all matches, one \<open>"!"\<close> for each exclamation mark, or
  \<open>null\<close> when there is none.
\<close>

definition match_bang :: "jsstring \<Rightarrow> jsstring list option" where
  "match_bang s =
     (let ms = map (\<lambda>c. [c]) (filter (\<lambda>c. c = 0x21) s)
      in if ms = [] then None else Some ms)"

text \<open>\<open>arr.join(sep)\<close>\<close>

fun join_js :: "jsstring \<Rightarrow> jsstring list \<Rightarrow> jsstring" where
  "join_js sep [] = []"
| "join_js sep [x] = x"
| "join_js sep (x # y # ys) = x @ sep @ join_js sep (y # ys)"

text \<open>\<open>Math.round\<close>: the nearest integer, a half rounded up.\<close>

definition Math_round :: "rat \<Rightarrow> int" where
  "Math_round x = \<lfloor>x + 1 / 2\<rfloor>"

subsection \<open>Types of the detector\<close>

datatype HeadlineLabel = Fake | Trustworthy

record DetectionResult =
  label :: HeadlineLabel
  confidence :: int
  explanation :: jsstring

text \<open>The three local variables of the scoring section.\<close>

record ScoreState =
  fakeScore :: int
  trustScore :: int
  reasons :: "jsstring list"

subsection \<open>Rule table\<close>

definition impossibleClaims :: "jsstring list" where
  "impossibleClaims = map js
     [''immortal'', ''immortality'', ''live forever'', ''cure cancer'',
      ''cures all diseases'', ''time travel'', ''teleportation'', ''reverse aging'',
      ''resurrect'', ''brings dead back'', ''weather control'', ''invincible'']"

definition strongClickbait :: "jsstring list" where
  "strongClickbait = map js
     [''you won'' @ [CHR 0x27] @ ''t believe'', ''shocking'', ''explosive'', ''mind-blowing'',
      ''unbelievable'', ''this will change your life'', ''goes viral'', ''secret method'',
      ''top secret'', ''hidden truth'', ''what happens next'']"

definition sensationalWords :: "jsstring list" where
  "sensationalWords = map js
     [''miracle'', ''outrageous'', ''insane'', ''jaw-dropping'', ''scandal'', ''exposed'',
      ''insider reveals'']"

definition absoluteLanguage :: "jsstring list" where
  "absoluteLanguage = map js
     [''never'', ''always'', ''everyone'', ''no one'', ''proves once and for all'']"

definition trustworthyCues :: "jsstring list" where
  "trustworthyCues = map js
     [''study'', ''research'', ''according to'', ''report'', ''analysis'', ''university'',
      ''scientists at'', ''researchers at'', ''published in'', ''official data'',
      ''peer-reviewed'', ''in a journal'']"

subsection \<open>Scoring\<close>

text \<open>\<open>fakeScore += n\<close>, \<open>trustScore += n\<close> and \<open>reasons.push(r)\<close>\<close>

definition incFake :: "int \<Rightarrow> ScoreState \<Rightarrow> ScoreState" where
  "incFake n st = st\<lparr>fakeScore := fakeScore st + n\<rparr>"

definition incTrust :: "int \<Rightarrow> ScoreState \<Rightarrow> ScoreState" where
  "incTrust n st = st\<lparr>trustScore := trustScore st + n\<rparr>"

definition push :: "jsstring \<Rightarrow> ScoreState \<Rightarrow> ScoreState" where
  "push r st = st\<lparr>reasons := reasons st @ [r]\<rparr>"

text \<open>\<open>(original.match(/!/g) || []).length\<close>\<close>

definition exclamations :: "jsstring \<Rightarrow> nat" where
  "exclamations original =
     length (case match_bang original of None \<Rightarrow> [] | Some ms \<Rightarrow> ms)"

text \<open>\<open>words.filter((w) => w.length >= 4 && w === w.toUpperCase())\<close>\<close>

definition allCaps :: "CaseMapping \<Rightarrow> jsstring list \<Rightarrow> jsstring list" where
  "allCaps U words = filter (\<lambda>w. length w \<ge> 4 \<and> w = toUpperCase U w) words"

text \<open>
  The scoring section of \<open>detectHeadline\<close>. Every \<open>if\<close> statement of the source
  is one step on the three local variables, named after the source's comment on it.
\<close>

definition impossibleClaimsRule :: "jsstring \<Rightarrow> ScoreState \<Rightarrow> ScoreState" where
  "impossibleClaimsRule lower st =
     (if containsAny lower impossibleClaims
      then push (js ''Mentions impossible or pseudoscientific claims.'') (incFake 5 st)
      else st)"

definition strongClickbaitRule :: "jsstring \<Rightarrow> ScoreState \<Rightarrow> ScoreState" where
  "strongClickbaitRule lower st =
     (if containsAny lower strongClickbait
      then push (js ''Uses strong clickbait language associated with fake headlines.'')
             (incFake 4 st)
      else st)"

definition sensationalWordsRule :: "jsstring \<Rightarrow> ScoreState \<Rightarrow> ScoreState" where
  "sensationalWordsRule lower st =
     (if containsAny lower sensationalWords
      then push (js ''Contains sensational or emotionally-loaded words.'') (incFake 3 st)
      else st)"

definition absoluteLanguageRule :: "jsstring \<Rightarrow> ScoreState \<Rightarrow> ScoreState" where
  "absoluteLanguageRule lower st =
     (if containsAny lower absoluteLanguage
      then push (js ''Uses absolute language often seen in misleading content.'') (incFake 2 st)
      else st)"

definition punctuationRule :: "jsstring \<Rightarrow> ScoreState \<Rightarrow> ScoreState" where
  "punctuationRule original st =
     (if exclamations original \<ge> 2
      then push (js ''Contains multiple exclamation marks, indicating exaggeration.'')
             (incFake 3 st)
      else if exclamations original = 1
      then push (js ''Contains an exclamation mark, a common indicator of strong sensationalism.'')
             (incFake 1 st)
      else st)"

definition allCapsRule :: "CaseMapping \<Rightarrow> jsstring list \<Rightarrow> ScoreState \<Rightarrow> ScoreState" where
  "allCapsRule U words st =
     (if length (allCaps U words) \<ge> 2
      then push (js ''Contains multiple ALL-CAPS words used to grab attention.'') (incFake 3 st)
      else st)"

definition trustIndicatorsRule :: "jsstring \<Rightarrow> ScoreState \<Rightarrow> ScoreState" where
  "trustIndicatorsRule lower st =
     (if containsAny lower trustworthyCues
      then push (js ''References research, data, universities, or official sources.'')
             (incTrust 4 st)
      else st)"

definition longHeadlineRule :: "jsstring list \<Rightarrow> ScoreState \<Rightarrow> ScoreState" where
  "longHeadlineRule words st = (if length words > 14 then incTrust 1 st else st)"

definition shortHeadlineRule :: "jsstring list \<Rightarrow> ScoreState \<Rightarrow> ScoreState" where
  "shortHeadlineRule words st = (if length words < 5 then incFake 1 st else st)"

definition scoring :: "CaseMapping \<Rightarrow> jsstring \<Rightarrow> jsstring \<Rightarrow> ScoreState" where
  "scoring U original lower =
     (let st = \<lparr>fakeScore = 0, trustScore = 0, reasons = []\<rparr>;
          st = impossibleClaimsRule lower st;
          st = strongClickbaitRule lower st;
          st = sensationalWordsRule lower st;
          st = absoluteLanguageRule lower st;
          st = punctuationRule original st;
          words = split_ws original;
          st = allCapsRule U words st;
          st = trustIndicatorsRule lower st;
          st = longHeadlineRule words st;
          st = shortHeadlineRule words st
      in st)"

subsection \<open>Decision\<close>

text \<open>
  The final label decision and the explanation, from \<open>finalScore\<close> to the returned
  object.
\<close>

definition neutralExplanation :: jsstring where
  "neutralExplanation =
     js ''The headline appears neutral and does not match common patterns of misleading or sensational content.''"

definition decide :: "ScoreState \<Rightarrow> DetectionResult" where
  "decide st =
     (let finalScore = fakeScore st - trustScore st;
          (lab, conf) =
            (if finalScore \<ge> 3 then (Fake, 85 + min (fakeScore st * 2) 10)
             else if finalScore \<le> - 2 then (Trustworthy, 80 + min (trustScore st * 2) 15)
             else (if finalScore > 0 then Fake else Trustworthy, 70 + \<bar>finalScore\<bar> * 5));
          expl = (if length (reasons st) > 0 then join_js (js '' '') (reasons st)
                  else neutralExplanation)
      in \<lparr>label = lab, confidence = min 95 (Math_round (of_int conf)), explanation = expl\<rparr>)"

subsection \<open>The detector\<close>

definition detectHeadline :: "CaseMapping \<Rightarrow> jsstring \<Rightarrow> DetectionResult" where
  "detectHeadline U headline =
     (let original = trim headline;
          lower = toLowerCase U original
      in if original = []
         then \<lparr>label = Fake, confidence = 0,
               explanation = js ''No headline text was provided.''\<rparr>
         else decide (scoring U original lower))"

subsection \<open>Auxiliary definitions for the statements\<close>

text \<open>The three local variables as they stand when the scoring section ends.\<close>

definition scoreState :: "CaseMapping \<Rightarrow> jsstring \<Rightarrow> ScoreState" where
  "scoreState U headline = scoring U (trim headline) (toLowerCase U (trim headline))"

text \<open>
  The same variables just before the length analysis, that is after the trust
  indicators.
\<close>

definition beforeLengthAnalysis :: "CaseMapping \<Rightarrow> jsstring \<Rightarrow> jsstring \<Rightarrow> ScoreState" where
  "beforeLengthAnalysis U original lower =
     (let st = \<lparr>fakeScore = 0, trustScore = 0, reasons = []\<rparr>;
          st = impossibleClaimsRule lower st;
          st = strongClickbaitRule lower st;
          st = sensationalWordsRule lower st;
          st = absoluteLanguageRule lower st;
          st = punctuationRule original st;
          words = split_ws original;
          st = allCapsRule U words st;
          st = trustIndicatorsRule lower st
      in st)"

text \<open>
  What the rules on the shape of the headline (exclamation marks, capital words, a
  short headline) add to \<open>fakeScore\<close>.
\<close>

definition structuralFake :: "CaseMapping \<Rightarrow> jsstring \<Rightarrow> int" where
  "structuralFake U original =
     (if exclamations original \<ge> 2 then 3 else if exclamations original = 1 then 1 else 0) +
     (if length (allCaps U (split_ws original)) \<ge> 2 then 3 else 0) +
     (if length (split_ws original) < 5 then 1 else 0)"

subsection \<open>The rule categories as the specification describes them\<close>

text \<open>
  A rule category is a set of phrases with a weight; it fires on a text that contains
  one of its phrases as a contiguous piece, and then contributes its weight, once.
\<close>

datatype RuleCategory =
  ImpossibleClaims | StrongClickbait | SensationalWords | AbsoluteLanguage | TrustworthyCues

fun spec_phrases :: "RuleCategory \<Rightarrow> jsstring list" where
  "spec_phrases ImpossibleClaims = impossibleClaims"
| "spec_phrases StrongClickbait = strongClickbait"
| "spec_phrases SensationalWords = sensationalWords"
| "spec_phrases AbsoluteLanguage = absoluteLanguage"
| "spec_phrases TrustworthyCues = trustworthyCues"

fun spec_weight :: "RuleCategory \<Rightarrow> int" where
  "spec_weight ImpossibleClaims = 5"
| "spec_weight StrongClickbait = 4"
| "spec_weight SensationalWords = 3"
| "spec_weight AbsoluteLanguage = 2"
| "spec_weight TrustworthyCues = 4"

definition spec_fires :: "RuleCategory \<Rightarrow> jsstring \<Rightarrow> bool" where
  "spec_fires c lower \<longleftrightarrow> (\<exists>p \<in> set (spec_phrases c). sublist p lower)"

definition spec_contribution :: "RuleCategory \<Rightarrow> jsstring \<Rightarrow> int" where
  "spec_contribution c lower = (if spec_fires c lower then spec_weight c else 0)"

text \<open>The fake-leaning categories that fire on a headline.\<close>

definition spec_fakeCategories :: "CaseMapping \<Rightarrow> jsstring \<Rightarrow> RuleCategory list" where
  "spec_fakeCategories U headline =
     filter (\<lambda>c. spec_fires c (toLowerCase U (trim headline)))
       [ImpossibleClaims, StrongClickbait, SensationalWords, AbsoluteLanguage]"

text \<open>
  The sentences of the rules that are triggered, in the order in which the rules are
  evaluated: the four fake-leaning categories, the exclamation marks, the capital
  words, the trustworthy cues.
\<close>

definition spec_triggered :: "CaseMapping \<Rightarrow> jsstring \<Rightarrow> jsstring \<Rightarrow> jsstring list" where
  "spec_triggered U original lower =
     (if spec_fires ImpossibleClaims lower
      then [js ''Mentions impossible or pseudoscientific claims.''] else []) @
     (if spec_fires StrongClickbait lower
      then [js ''Uses strong clickbait language associated with fake headlines.''] else []) @
     (if spec_fires SensationalWords lower
      then [js ''Contains sensational or emotionally-loaded words.''] else []) @
     (if spec_fires AbsoluteLanguage lower
      then [js ''Uses absolute language often seen in misleading content.''] else []) @
     (if count_list original 0x21 \<ge> 2
      then [js ''Contains multiple exclamation marks, indicating exaggeration.'']
      else if count_list original 0x21 = 1
      then [js ''Contains an exclamation mark, a common indicator of strong sensationalism.'']
      else []) @
     (if length (allCaps U (split_ws original)) \<ge> 2
      then [js ''Contains multiple ALL-CAPS words used to grab attention.''] else []) @
     (if spec_fires TrustworthyCues lower
      then [js ''References research, data, universities, or official sources.''] else [])"

text \<open>
  The same sentences in the order of sections 4.2 and 4.4 of the specification: the
  five categories first (impossible claims, strong clickbait, sensational words,
  absolute language, trustworthy cues), then the rules on the shape of the headline.
\<close>

definition spec_triggered_categoryFirst ::
    "CaseMapping \<Rightarrow> jsstring \<Rightarrow> jsstring \<Rightarrow> jsstring list" where
  "spec_triggered_categoryFirst U original lower =
     (if spec_fires ImpossibleClaims lower
      then [js ''Mentions impossible or pseudoscientific claims.''] else []) @
     (if spec_fires StrongClickbait lower
      then [js ''Uses strong clickbait language associated with fake headlines.''] else []) @
     (if spec_fires SensationalWords lower
      then [js ''Contains sensational or emotionally-loaded words.''] else []) @
     (if spec_fires AbsoluteLanguage lower
      then [js ''Uses absolute language often seen in misleading content.''] else []) @
     (if spec_fires TrustworthyCues lower
      then [js ''References research, data, universities, or official sources.''] else []) @
     (if count_list original 0x21 \<ge> 2
      then [js ''Contains multiple exclamation marks, indicating exaggeration.'']
      else if count_list original 0x21 = 1
      then [js ''Contains an exclamation mark, a common indicator of strong sensationalism.'']
      else []) @
     (if length (allCaps U (split_ws original)) \<ge> 2
      then [js ''Contains multiple ALL-CAPS words used to grab attention.''] else [])"

section \<open>Properties\<close>

subsection \<open>Strings\<close>

lemma includes_js_sublist: "includes_js str item \<longleftrightarrow> sublist item str"
  by (induction str) (simp_all add: sublist_Cons_right)

lemma containsAny_iff: "containsAny str arr \<longleftrightarrow> (\<exists>item \<in> set arr. sublist item str)"
  by (simp add: containsAny_def list_ex_iff includes_js_sublist)

lemma Math_round_of_int: "Math_round (of_int n) = n"
  unfolding Math_round_def by (rule floor_unique) simp_all

lemma trim_Nil_iff: "trim s = [] \<longleftrightarrow> (\<forall>c \<in> set s. isWhiteSpace c)"
proof
  assume "trim s = []"
  then have "dropWhile isWhiteSpace (rev (dropWhile isWhiteSpace s)) = []"
    by (simp add: trim_def)
  then have "\<forall>c \<in> set (dropWhile isWhiteSpace s). isWhiteSpace c"
    by simp
  then have "dropWhile isWhiteSpace s = []"
    using hd_dropWhile [of isWhiteSpace s] by (cases "dropWhile isWhiteSpace s") auto
  then show "\<forall>c \<in> set s. isWhiteSpace c"
    by simp
next
  assume "\<forall>c \<in> set s. isWhiteSpace c"
  then have eq: "dropWhile isWhiteSpace s = []"
    by simp
  show "trim s = []"
    unfolding trim_def eq by simp
qed

subsection \<open>The steps of the scoring section\<close>

lemma fakeScore_push: "fakeScore (push r st) = fakeScore st"
  and trustScore_push: "trustScore (push r st) = trustScore st"
  and reasons_push: "reasons (push r st) = reasons st @ [r]"
  and fakeScore_incFake: "fakeScore (incFake n st) = fakeScore st + n"
  and trustScore_incFake: "trustScore (incFake n st) = trustScore st"
  and reasons_incFake: "reasons (incFake n st) = reasons st"
  and fakeScore_incTrust: "fakeScore (incTrust n st) = fakeScore st"
  and trustScore_incTrust: "trustScore (incTrust n st) = trustScore st + n"
  and reasons_incTrust: "reasons (incTrust n st) = reasons st"
  by (simp_all add: push_def incFake_def incTrust_def)

lemmas step_simps = fakeScore_push trustScore_push reasons_push fakeScore_incFake
  trustScore_incFake reasons_incFake fakeScore_incTrust trustScore_incTrust reasons_incTrust

lemmas rule_defs = impossibleClaimsRule_def strongClickbaitRule_def sensationalWordsRule_def
  absoluteLanguageRule_def punctuationRule_def allCapsRule_def trustIndicatorsRule_def
  longHeadlineRule_def shortHeadlineRule_def

lemma fakeScore_rules:
  "fakeScore (impossibleClaimsRule lower st) =
     fakeScore st + (if containsAny lower impossibleClaims then 5 else 0)"
  "fakeScore (strongClickbaitRule lower st) =
     fakeScore st + (if containsAny lower strongClickbait then 4 else 0)"
  "fakeScore (sensationalWordsRule lower st) =
     fakeScore st + (if containsAny lower sensationalWords then 3 else 0)"
  "fakeScore (absoluteLanguageRule lower st) =
     fakeScore st + (if containsAny lower absoluteLanguage then 2 else 0)"
  "fakeScore (punctuationRule original st) =
     fakeScore st +
     (if exclamations original \<ge> 2 then 3 else if exclamations original = 1 then 1 else 0)"
  "fakeScore (allCapsRule U words st) =
     fakeScore st + (if length (allCaps U words) \<ge> 2 then 3 else 0)"
  "fakeScore (trustIndicatorsRule lower st) = fakeScore st"
  "fakeScore (longHeadlineRule words st) = fakeScore st"
  "fakeScore (shortHeadlineRule words st) = fakeScore st + (if length words < 5 then 1 else 0)"
  by (simp_all add: rule_defs step_simps)

lemma trustScore_rules:
  "trustScore (impossibleClaimsRule lower st) = trustScore st"
  "trustScore (strongClickbaitRule lower st) = trustScore st"
  "trustScore (sensationalWordsRule lower st) = trustScore st"
  "trustScore (absoluteLanguageRule lower st) = trustScore st"
  "trustScore (punctuationRule original st) = trustScore st"
  "trustScore (allCapsRule U words st) = trustScore st"
  "trustScore (trustIndicatorsRule lower st) =
     trustScore st + (if containsAny lower trustworthyCues then 4 else 0)"
  "trustScore (longHeadlineRule words st) = trustScore st + (if length words > 14 then 1 else 0)"
  "trustScore (shortHeadlineRule words st) = trustScore st"
  by (simp_all add: rule_defs step_simps)

lemma reasons_rules:
  "reasons (impossibleClaimsRule lower st) =
     reasons st @ (if containsAny lower impossibleClaims
                   then [js ''Mentions impossible or pseudoscientific claims.''] else [])"
  "reasons (strongClickbaitRule lower st) =
     reasons st @ (if containsAny lower strongClickbait
                   then [js ''Uses strong clickbait language associated with fake headlines.'']
                   else [])"
  "reasons (sensationalWordsRule lower st) =
     reasons st @ (if containsAny lower sensationalWords
                   then [js ''Contains sensational or emotionally-loaded words.''] else [])"
  "reasons (absoluteLanguageRule lower st) =
     reasons st @ (if containsAny lower absoluteLanguage
                   then [js ''Uses absolute language often seen in misleading content.'']
                   else [])"
  "reasons (punctuationRule original st) =
     reasons st @
     (if exclamations original \<ge> 2
      then [js ''Contains multiple exclamation marks, indicating exaggeration.'']
      else if exclamations original = 1
      then [js ''Contains an exclamation mark, a common indicator of strong sensationalism.'']
      else [])"
  "reasons (allCapsRule U words st) =
     reasons st @ (if length (allCaps U words) \<ge> 2
                   then [js ''Contains multiple ALL-CAPS words used to grab attention.'']
                   else [])"
  "reasons (trustIndicatorsRule lower st) =
     reasons st @ (if containsAny lower trustworthyCues
                   then [js ''References research, data, universities, or official sources.'']
                   else [])"
  "reasons (longHeadlineRule words st) = reasons st"
  "reasons (shortHeadlineRule words st) = reasons st"
  by (simp_all add: rule_defs step_simps)

lemma fakeScore_scoring:
  "fakeScore (scoring U original lower) =
     (if containsAny lower impossibleClaims then 5 else 0) +
     (if containsAny lower strongClickbait then 4 else 0) +
     (if containsAny lower sensationalWords then 3 else 0) +
     (if containsAny lower absoluteLanguage then 2 else 0) +
     (if exclamations original \<ge> 2 then 3 else if exclamations original = 1 then 1 else 0) +
     (if length (allCaps U (split_ws original)) \<ge> 2 then 3 else 0) +
     (if length (split_ws original) < 5 then 1 else 0)"
  unfolding scoring_def Let_def fakeScore_rules by simp

lemma trustScore_scoring:
  "trustScore (scoring U original lower) =
     (if containsAny lower trustworthyCues then 4 else 0) +
     (if length (split_ws original) > 14 then 1 else 0)"
  unfolding scoring_def Let_def trustScore_rules by simp

lemma scoring_after_beforeLengthAnalysis:
  "scoring U original lower =
     shortHeadlineRule (split_ws original)
       (longHeadlineRule (split_ws original) (beforeLengthAnalysis U original lower))"
  unfolding scoring_def beforeLengthAnalysis_def Let_def by (rule refl)

lemma exclamations_count: "exclamations original = count_list original 0x21"
proof -
  have len: "count_list xs a = length (filter (\<lambda>c. c = a) xs)" for a :: codeunit and xs
    by (induction xs) simp_all
  show ?thesis
    unfolding len by (simp add: exclamations_def match_bang_def Let_def)
qed

lemma reasons_scoring_source:
  "reasons (scoring U original lower) =
     (if containsAny lower impossibleClaims
      then [js ''Mentions impossible or pseudoscientific claims.''] else []) @
     (if containsAny lower strongClickbait
      then [js ''Uses strong clickbait language associated with fake headlines.''] else []) @
     (if containsAny lower sensationalWords
      then [js ''Contains sensational or emotionally-loaded words.''] else []) @
     (if containsAny lower absoluteLanguage
      then [js ''Uses absolute language often seen in misleading content.''] else []) @
     (if exclamations original \<ge> 2
      then [js ''Contains multiple exclamation marks, indicating exaggeration.'']
      else if exclamations original = 1
      then [js ''Contains an exclamation mark, a common indicator of strong sensationalism.'']
      else []) @
     (if length (allCaps U (split_ws original)) \<ge> 2
      then [js ''Contains multiple ALL-CAPS words used to grab attention.''] else []) @
     (if containsAny lower trustworthyCues
      then [js ''References research, data, universities, or official sources.''] else [])"
  unfolding scoring_def Let_def reasons_rules by simp

lemma spec_fires_iff:
  "spec_fires ImpossibleClaims lower \<longleftrightarrow> containsAny lower impossibleClaims"
  "spec_fires StrongClickbait lower \<longleftrightarrow> containsAny lower strongClickbait"
  "spec_fires SensationalWords lower \<longleftrightarrow> containsAny lower sensationalWords"
  "spec_fires AbsoluteLanguage lower \<longleftrightarrow> containsAny lower absoluteLanguage"
  "spec_fires TrustworthyCues lower \<longleftrightarrow> containsAny lower trustworthyCues"
  by (simp_all add: spec_fires_def containsAny_iff)

lemma reasons_scoring: "reasons (scoring U original lower) = spec_triggered U original lower"
  unfolding reasons_scoring_source spec_triggered_def spec_fires_iff exclamations_count
  by (rule refl)

lemma fakeScore_nonneg: "0 \<le> fakeScore (scoring U original lower)"
  unfolding fakeScore_scoring by (intro add_nonneg_nonneg) simp_all

lemma trustScore_nonneg: "0 \<le> trustScore (scoring U original lower)"
  unfolding trustScore_scoring by (intro add_nonneg_nonneg) simp_all

subsection \<open>The decision\<close>

lemma label_decide:
  "label (decide st) = (if fakeScore st - trustScore st \<ge> 1 then Fake else Trustworthy)"
  by (simp add: decide_def Let_def)

lemma confidence_decide:
  "confidence (decide st) =
     (if fakeScore st - trustScore st \<ge> 3 then min 95 (85 + min (fakeScore st * 2) 10)
      else if fakeScore st - trustScore st \<le> - 2 then min 95 (80 + min (trustScore st * 2) 15)
      else min 95 (70 + \<bar>fakeScore st - trustScore st\<bar> * 5))"
  by (simp add: decide_def Let_def Math_round_of_int)

lemma explanation_decide:
  "explanation (decide st) =
     (if reasons st = [] then neutralExplanation else join_js (js '' '') (reasons st))"
  by (simp add: decide_def Let_def split_def)

lemma detectHeadline_nonempty:
  "trim s \<noteq> [] \<Longrightarrow> detectHeadline U s = decide (scoreState U s)"
  by (simp add: detectHeadline_def scoreState_def Let_def)

subsection \<open>Evaluation on concrete headlines\<close>

text \<open>
  Rules that let the simplifier run the string functions on a literal from left to
  right, stopping at the first match.
\<close>

lemma prefix_eval:
  "prefix [] ys = True"
  "prefix (x # xs) [] = False"
  "prefix (x # xs) (y # ys) = (if x = y then prefix xs ys else False)"
  by simp_all

lemma includes_js_eval:
  "includes_js (c # cs) item = (if prefix item (c # cs) then True else includes_js cs item)"
  by simp

lemma list_ex_eval: "list_ex P (x # xs) = (if P x then True else list_ex P xs)"
  by simp

lemma isWhiteSpace_eval:
  "isWhiteSpace c =
     (if c = 0x20 then True
      else if 0x21 \<le> c \<and> c \<le> 0x7E then False
      else c = 0x09 \<or> c = 0x0A \<or> c = 0x0B \<or> c = 0x0C \<or> c = 0x0D \<or> c = 0xA0 \<or>
        c = 0x1680 \<or> (0x2000 \<le> c \<and> c \<le> 0x200A) \<or> c = 0x2028 \<or> c = 0x2029 \<or>
        c = 0x202F \<or> c = 0x205F \<or> c = 0x3000 \<or> c = 0xFEFF)"
proof -
  have "\<not> 0x2000 \<le> c" if "c \<le> 0x7E"
    using that order_trans [of "0x2000" c "0x7E"] by auto
  then show ?thesis
    by (auto simp: isWhiteSpace_def)
qed

lemma js_Cons_not_Nil: "js (c # cs) \<noteq> []"
  by (simp add: js_def)

lemma Math_round_numeral: "Math_round (numeral k) = numeral k"
  using Math_round_of_int [of "numeral k"] by simp

lemmas eval_del = includes_js.simps(2) Cons_prefix_Cons list_ex_Cons_iff

lemmas eval_add = prefix_eval includes_js_eval list_ex_eval isWhiteSpace_eval

lemmas table_defs = impossibleClaims_def strongClickbait_def sensationalWords_def
  absoluteLanguage_def trustworthyCues_def

text \<open>A neutral headline: no rule is triggered.\<close>

lemma city_council_trim:
  "trim (js ''City council approves new budget for road repairs'') =
     js ''City council approves new budget for road repairs''"
  by (simp add: js_def trim_def eval_add del: eval_del)

lemma city_council_lower:
  "toLowerCase U (js ''City council approves new budget for road repairs'') =
     js ''city council approves new budget for road repairs''"
  by (simp add: js_def toLowerCase_def isAscii_def toLowerCaseUnit_def)

lemma city_council_categories:
  "\<not> containsAny (js ''city council approves new budget for road repairs'')
     impossibleClaims"
  "\<not> containsAny (js ''city council approves new budget for road repairs'')
     strongClickbait"
  "\<not> containsAny (js ''city council approves new budget for road repairs'')
     sensationalWords"
  "\<not> containsAny (js ''city council approves new budget for road repairs'')
     absoluteLanguage"
  "\<not> containsAny (js ''city council approves new budget for road repairs'')
     trustworthyCues"
  by (simp_all add: js_def containsAny_def table_defs eval_add del: eval_del)

lemma city_council_words:
  "split_ws (js ''City council approves new budget for road repairs'') =
     [js ''City'', js ''council'', js ''approves'', js ''new'', js ''budget'', js ''for'',
      js ''road'', js ''repairs'']"
  by (simp add: js_def split_ws.simps Let_def eval_add del: eval_del)

lemma city_council_exclamations:
  "exclamations (js ''City council approves new budget for road repairs'') = 0"
  by (simp add: js_def exclamations_count)

lemma city_council_allCaps:
  "allCaps U [js ''City'', js ''council'', js ''approves'', js ''new'', js ''budget'', js ''for'',
   js ''road'', js ''repairs''] =
     []"
  by (simp add: js_def allCaps_def toUpperCase_def isAscii_def toUpperCaseUnit_def)

lemma city_council_state:
  "trim (js ''City council approves new budget for road repairs'') \<noteq> []"
  "fakeScore (scoreState U (js ''City council approves new budget for road repairs'')) = 0"
  "trustScore (scoreState U (js ''City council approves new budget for road repairs'')) = 0"
  "reasons (scoreState U (js ''City council approves new budget for road repairs'')) =
     []"
  "structuralFake U (trim (js ''City council approves new budget for road repairs'')) = 0"
  by (simp_all add: scoreState_def structuralFake_def fakeScore_scoring trustScore_scoring
      reasons_scoring_source
      city_council_trim city_council_lower city_council_categories city_council_words
      city_council_exclamations city_council_allCaps js_Cons_not_Nil)

text \<open>A short headline with one exclamation mark.\<close>

lemma hello_world_trim:
  "trim (js ''Hello world!'') =
     js ''Hello world!''"
  by (simp add: js_def trim_def eval_add del: eval_del)

lemma hello_world_lower:
  "toLowerCase U (js ''Hello world!'') =
     js ''hello world!''"
  by (simp add: js_def toLowerCase_def isAscii_def toLowerCaseUnit_def)

lemma hello_world_categories:
  "\<not> containsAny (js ''hello world!'')
     impossibleClaims"
  "\<not> containsAny (js ''hello world!'')
     strongClickbait"
  "\<not> containsAny (js ''hello world!'')
     sensationalWords"
  "\<not> containsAny (js ''hello world!'')
     absoluteLanguage"
  "\<not> containsAny (js ''hello world!'')
     trustworthyCues"
  by (simp_all add: js_def containsAny_def table_defs eval_add del: eval_del)

lemma hello_world_words:
  "split_ws (js ''Hello world!'') =
     [js ''Hello'', js ''world!'']"
  by (simp add: js_def split_ws.simps Let_def eval_add del: eval_del)

lemma hello_world_exclamations:
  "exclamations (js ''Hello world!'') = 1"
  by (simp add: js_def exclamations_count)

lemma hello_world_allCaps:
  "allCaps U [js ''Hello'', js ''world!''] =
     []"
  by (simp add: js_def allCaps_def toUpperCase_def isAscii_def toUpperCaseUnit_def)

lemma hello_world_state:
  "trim (js ''Hello world!'') \<noteq> []"
  "fakeScore (scoreState U (js ''Hello world!'')) = 2"
  "trustScore (scoreState U (js ''Hello world!'')) = 0"
  "reasons (scoreState U (js ''Hello world!'')) =
     [js ''Contains an exclamation mark, a common indicator of strong sensationalism.'']"
  "structuralFake U (trim (js ''Hello world!'')) = 2"
  by (simp_all add: scoreState_def structuralFake_def fakeScore_scoring trustScore_scoring
      reasons_scoring_source
      hello_world_trim hello_world_lower hello_world_categories hello_world_words
      hello_world_exclamations hello_world_allCaps js_Cons_not_Nil)

text \<open>Two phrases of one category (\<open>immortal\<close> and \<open>immortality\<close>) inside a capitalised word,
  and white space around the headline.\<close>

lemma immortality_pill_trim:
  "trim (js ''  Immortality pill found!  '') =
     js ''Immortality pill found!''"
  by (simp add: js_def trim_def eval_add del: eval_del)

lemma immortality_pill_lower:
  "toLowerCase U (js ''Immortality pill found!'') =
     js ''immortality pill found!''"
  by (simp add: js_def toLowerCase_def isAscii_def toLowerCaseUnit_def)

lemma immortality_pill_categories:
  "containsAny (js ''immortality pill found!'')
     impossibleClaims"
  "\<not> containsAny (js ''immortality pill found!'')
     strongClickbait"
  "\<not> containsAny (js ''immortality pill found!'')
     sensationalWords"
  "\<not> containsAny (js ''immortality pill found!'')
     absoluteLanguage"
  "\<not> containsAny (js ''immortality pill found!'')
     trustworthyCues"
  by (simp_all add: js_def containsAny_def table_defs eval_add del: eval_del)

lemma immortality_pill_words:
  "split_ws (js ''Immortality pill found!'') =
     [js ''Immortality'', js ''pill'', js ''found!'']"
  by (simp add: js_def split_ws.simps Let_def eval_add del: eval_del)

lemma immortality_pill_exclamations:
  "exclamations (js ''Immortality pill found!'') = 1"
  by (simp add: js_def exclamations_count)

lemma immortality_pill_allCaps:
  "allCaps U [js ''Immortality'', js ''pill'', js ''found!''] =
     []"
  by (simp add: js_def allCaps_def toUpperCase_def isAscii_def toUpperCaseUnit_def)

lemma immortality_pill_state:
  "trim (js ''  Immortality pill found!  '') \<noteq> []"
  "fakeScore (scoreState U (js ''  Immortality pill found!  '')) = 7"
  "trustScore (scoreState U (js ''  Immortality pill found!  '')) = 0"
  "reasons (scoreState U (js ''  Immortality pill found!  '')) =
     [js ''Mentions impossible or pseudoscientific claims.'',
      js ''Contains an exclamation mark, a common indicator of strong sensationalism.'']"
  "structuralFake U (trim (js ''  Immortality pill found!  '')) = 2"
  by (simp_all add: scoreState_def structuralFake_def fakeScore_scoring trustScore_scoring
      reasons_scoring_source
      immortality_pill_trim immortality_pill_lower immortality_pill_categories
      immortality_pill_words immortality_pill_exclamations immortality_pill_allCaps js_Cons_not_Nil)

text \<open>Two fake-leaning categories, an exclamation mark and a trustworthy cue.\<close>

lemma shocking_study_trim:
  "trim (js ''Shocking miracle study!'') =
     js ''Shocking miracle study!''"
  by (simp add: js_def trim_def eval_add del: eval_del)

lemma shocking_study_lower:
  "toLowerCase U (js ''Shocking miracle study!'') =
     js ''shocking miracle study!''"
  by (simp add: js_def toLowerCase_def isAscii_def toLowerCaseUnit_def)

lemma shocking_study_categories:
  "\<not> containsAny (js ''shocking miracle study!'')
     impossibleClaims"
  "containsAny (js ''shocking miracle study!'')
     strongClickbait"
  "containsAny (js ''shocking miracle study!'')
     sensationalWords"
  "\<not> containsAny (js ''shocking miracle study!'')
     absoluteLanguage"
  "containsAny (js ''shocking miracle study!'')
     trustworthyCues"
  by (simp_all add: js_def containsAny_def table_defs eval_add del: eval_del)

lemma shocking_study_words:
  "split_ws (js ''Shocking miracle study!'') =
     [js ''Shocking'', js ''miracle'', js ''study!'']"
  by (simp add: js_def split_ws.simps Let_def eval_add del: eval_del)

lemma shocking_study_exclamations:
  "exclamations (js ''Shocking miracle study!'') = 1"
  by (simp add: js_def exclamations_count)

lemma shocking_study_allCaps:
  "allCaps U [js ''Shocking'', js ''miracle'', js ''study!''] =
     []"
  by (simp add: js_def allCaps_def toUpperCase_def isAscii_def toUpperCaseUnit_def)

lemma shocking_study_state:
  "trim (js ''Shocking miracle study!'') \<noteq> []"
  "fakeScore (scoreState U (js ''Shocking miracle study!'')) = 9"
  "trustScore (scoreState U (js ''Shocking miracle study!'')) = 4"
  "reasons (scoreState U (js ''Shocking miracle study!'')) =
     [js ''Uses strong clickbait language associated with fake headlines.'',
      js ''Contains sensational or emotionally-loaded words.'',
      js ''Contains an exclamation mark, a common indicator of strong sensationalism.'',
      js ''References research, data, universities, or official sources.'']"
  "structuralFake U (trim (js ''Shocking miracle study!'')) = 2"
  by (simp_all add: scoreState_def structuralFake_def fakeScore_scoring trustScore_scoring
      reasons_scoring_source
      shocking_study_trim shocking_study_lower shocking_study_categories shocking_study_words
      shocking_study_exclamations shocking_study_allCaps js_Cons_not_Nil)

text \<open>A headline of sixteen words with a trustworthy cue.\<close>

lemma river_study_trim:
  "trim (js ''A new study of the bay shows that the fish are back in the old port'') =
     js ''A new study of the bay shows that the fish are back in the old port''"
  by (simp add: js_def trim_def eval_add del: eval_del)

lemma river_study_lower:
  "toLowerCase U (js ''A new study of the bay shows that the fish are back in the old port'') =
     js ''a new study of the bay shows that the fish are back in the old port''"
  by (simp add: js_def toLowerCase_def isAscii_def toLowerCaseUnit_def)

lemma river_study_categories:
  "\<not> containsAny (js ''a new study of the bay shows that the fish are back in the old port'')
     impossibleClaims"
  "\<not> containsAny (js ''a new study of the bay shows that the fish are back in the old port'')
     strongClickbait"
  "\<not> containsAny (js ''a new study of the bay shows that the fish are back in the old port'')
     sensationalWords"
  "\<not> containsAny (js ''a new study of the bay shows that the fish are back in the old port'')
     absoluteLanguage"
  "containsAny (js ''a new study of the bay shows that the fish are back in the old port'')
     trustworthyCues"
  by (simp_all add: js_def containsAny_def table_defs eval_add del: eval_del)

lemma river_study_words:
  "split_ws (js ''A new study of the bay shows that the fish are back in the old port'') =
     [js ''A'', js ''new'', js ''study'', js ''of'', js ''the'', js ''bay'', js ''shows'',
      js ''that'', js ''the'', js ''fish'', js ''are'', js ''back'', js ''in'', js ''the'',
      js ''old'', js ''port'']"
  by (simp add: js_def split_ws.simps Let_def eval_add del: eval_del)

lemma river_study_exclamations:
  "exclamations (js ''A new study of the bay shows that the fish are back in the old port'') = 0"
  by (simp add: js_def exclamations_count)

lemma river_study_allCaps:
  "allCaps U [js ''A'', js ''new'', js ''study'', js ''of'', js ''the'', js ''bay'', js ''shows'',
   js ''that'', js ''the'', js ''fish'', js ''are'', js ''back'', js ''in'', js ''the'',
   js ''old'', js ''port''] =
     []"
  by (simp add: js_def allCaps_def toUpperCase_def isAscii_def toUpperCaseUnit_def)

lemma river_study_state:
  "trim (js ''A new study of the bay shows that the fish are back in the old port'') \<noteq> []"
  "fakeScore (scoreState U (js ''A new study of the bay shows that the fish are back in the old port'')) = 0"
  "trustScore (scoreState U (js ''A new study of the bay shows that the fish are back in the old port'')) = 5"
  "reasons (scoreState U (js ''A new study of the bay shows that the fish are back in the old port'')) =
     [js ''References research, data, universities, or official sources.'']"
  "structuralFake U (trim (js ''A new study of the bay shows that the fish are back in the old port'')) = 0"
  by (simp_all add: scoreState_def structuralFake_def fakeScore_scoring trustScore_scoring
      reasons_scoring_source
      river_study_trim river_study_lower river_study_categories river_study_words
      river_study_exclamations river_study_allCaps js_Cons_not_Nil)

text \<open>No fake-leaning category, but exclamation marks, capital words and few words.\<close>

lemma breaking_news_trim:
  "trim (js ''BREAKING NEWS!! study'') =
     js ''BREAKING NEWS!! study''"
  by (simp add: js_def trim_def eval_add del: eval_del)

lemma breaking_news_lower:
  "toLowerCase U (js ''BREAKING NEWS!! study'') =
     js ''breaking news!! study''"
  by (simp add: js_def toLowerCase_def isAscii_def toLowerCaseUnit_def)

lemma breaking_news_categories:
  "\<not> containsAny (js ''breaking news!! study'')
     impossibleClaims"
  "\<not> containsAny (js ''breaking news!! study'')
     strongClickbait"
  "\<not> containsAny (js ''breaking news!! study'')
     sensationalWords"
  "\<not> containsAny (js ''breaking news!! study'')
     absoluteLanguage"
  "containsAny (js ''breaking news!! study'')
     trustworthyCues"
  by (simp_all add: js_def containsAny_def table_defs eval_add del: eval_del)

lemma breaking_news_words:
  "split_ws (js ''BREAKING NEWS!! study'') =
     [js ''BREAKING'', js ''NEWS!!'', js ''study'']"
  by (simp add: js_def split_ws.simps Let_def eval_add del: eval_del)

lemma breaking_news_exclamations:
  "exclamations (js ''BREAKING NEWS!! study'') = 2"
  by (simp add: js_def exclamations_count)

lemma breaking_news_allCaps:
  "allCaps U [js ''BREAKING'', js ''NEWS!!'', js ''study''] =
     [js ''BREAKING'', js ''NEWS!!'']"
  by (simp add: js_def allCaps_def toUpperCase_def isAscii_def toUpperCaseUnit_def)

lemma breaking_news_state:
  "trim (js ''BREAKING NEWS!! study'') \<noteq> []"
  "fakeScore (scoreState U (js ''BREAKING NEWS!! study'')) = 7"
  "trustScore (scoreState U (js ''BREAKING NEWS!! study'')) = 4"
  "reasons (scoreState U (js ''BREAKING NEWS!! study'')) =
     [js ''Contains multiple exclamation marks, indicating exaggeration.'',
      js ''Contains multiple ALL-CAPS words used to grab attention.'',
      js ''References research, data, universities, or official sources.'']"
  "structuralFake U (trim (js ''BREAKING NEWS!! study'')) = 7"
  by (simp_all add: scoreState_def structuralFake_def fakeScore_scoring trustScore_scoring
      reasons_scoring_source
      breaking_news_trim breaking_news_lower breaking_news_categories breaking_news_words
      breaking_news_exclamations breaking_news_allCaps js_Cons_not_Nil)

text \<open>One fake-leaning category and a trustworthy cue.\<close>

lemma study_never_trim:
  "trim (js ''a study never said this'') =
     js ''a study never said this''"
  by (simp add: js_def trim_def eval_add del: eval_del)

lemma study_never_lower:
  "toLowerCase U (js ''a study never said this'') =
     js ''a study never said this''"
  by (simp add: js_def toLowerCase_def isAscii_def toLowerCaseUnit_def)

lemma study_never_categories:
  "\<not> containsAny (js ''a study never said this'')
     impossibleClaims"
  "\<not> containsAny (js ''a study never said this'')
     strongClickbait"
  "\<not> containsAny (js ''a study never said this'')
     sensationalWords"
  "containsAny (js ''a study never said this'')
     absoluteLanguage"
  "containsAny (js ''a study never said this'')
     trustworthyCues"
  by (simp_all add: js_def containsAny_def table_defs eval_add del: eval_del)

lemma study_never_words:
  "split_ws (js ''a study never said this'') =
     [js ''a'', js ''study'', js ''never'', js ''said'', js ''this'']"
  by (simp add: js_def split_ws.simps Let_def eval_add del: eval_del)

lemma study_never_exclamations:
  "exclamations (js ''a study never said this'') = 0"
  by (simp add: js_def exclamations_count)

lemma study_never_allCaps:
  "allCaps U [js ''a'', js ''study'', js ''never'', js ''said'', js ''this''] =
     []"
  by (simp add: js_def allCaps_def toUpperCase_def isAscii_def toUpperCaseUnit_def)

lemma study_never_state:
  "trim (js ''a study never said this'') \<noteq> []"
  "fakeScore (scoreState U (js ''a study never said this'')) = 2"
  "trustScore (scoreState U (js ''a study never said this'')) = 4"
  "reasons (scoreState U (js ''a study never said this'')) =
     [js ''Uses absolute language often seen in misleading content.'',
      js ''References research, data, universities, or official sources.'']"
  "structuralFake U (trim (js ''a study never said this'')) = 0"
  by (simp_all add: scoreState_def structuralFake_def fakeScore_scoring trustScore_scoring
      reasons_scoring_source
      study_never_trim study_never_lower study_never_categories study_never_words
      study_never_exclamations study_never_allCaps js_Cons_not_Nil)

section \<open>The claims\<close>

subsection \<open>Empty input\<close>

text \<open>
  Claim C1. For every input whose trimmed form is empty, and so for the empty string
  and for every string of white space only (\<open>trim_Nil_iff\<close>), \<open>detectHeadline\<close>
  returns the sentinel result: label fake, confidence 0, explanation
  "No headline text was provided.". The result is fixed before the scoring section, so
  nothing of the scoring enters it.
\<close>

theorem empty_input_sentinel:
  "trim s = [] \<Longrightarrow>
   detectHeadline U s =
     \<lparr>label = Fake, confidence = 0, explanation = js ''No headline text was provided.''\<rparr>"
  by (simp add: detectHeadline_def Let_def)

theorem empty_input_sentinel_witness:
  "trim (js ''   '') = [] \<and>
   detectHeadline asciiCase (js ''   '') =
     \<lparr>label = Fake, confidence = 0, explanation = js ''No headline text was provided.''\<rparr> \<and>
   trim (js []) = [] \<and>
   detectHeadline asciiCase (js []) =
     \<lparr>label = Fake, confidence = 0, explanation = js ''No headline text was provided.''\<rparr>"
proof -
  have blank: "trim (js ''   '') = []"
    by (simp add: trim_def js_def isWhiteSpace_def)
  have empty: "trim (js []) = []"
    by (simp add: trim_def js_def)
  from empty_input_sentinel [where U = asciiCase, OF blank]
    empty_input_sentinel [where U = asciiCase, OF empty] blank empty
  show ?thesis by simp
qed

subsection \<open>Bounds on the confidence\<close>

lemma confidence_decide_bounds:
  assumes "0 \<le> fakeScore st" and "0 \<le> trustScore st"
  shows "70 \<le> confidence (decide st)" and "confidence (decide st) \<le> 95"
  using assms unfolding confidence_decide by (simp_all add: min_def)

lemma confidence_scoreState_bounds:
  "70 \<le> confidence (decide (scoreState U s))" "confidence (decide (scoreState U s)) \<le> 95"
  unfolding scoreState_def
  by (rule confidence_decide_bounds [OF fakeScore_nonneg trustScore_nonneg])+

text \<open>
  Claim C2. For every input the confidence of the result is an integer between 0
  and 95.
\<close>

theorem confidence_bound:
  "0 \<le> confidence (detectHeadline U s) \<and> confidence (detectHeadline U s) \<le> 95"
proof (cases "trim s = []")
  case True
  then show ?thesis by (simp add: detectHeadline_def Let_def)
next
  case False
  with confidence_scoreState_bounds [where s = s and U = U] show ?thesis
    by (simp add: detectHeadline_nonempty)
qed

theorem confidence_bound_witness:
  "0 \<le> confidence (detectHeadline asciiCase (js ''Shocking miracle study!'')) \<and>
   confidence (detectHeadline asciiCase (js ''Shocking miracle study!'')) \<le> 95 \<and>
   confidence (detectHeadline asciiCase (js ''Shocking miracle study!'')) = 95"
proof -
  have "confidence (detectHeadline asciiCase (js ''Shocking miracle study!'')) = 95"
    by (simp add: detectHeadline_nonempty confidence_decide shocking_study_state)
  with confidence_bound [where U = asciiCase and s = "js ''Shocking miracle study!''"]
  show ?thesis by simp
qed

text \<open>
  Claim C10. For every input whose trimmed form is not empty the confidence is at
  least 70, so that no input has a confidence strictly between 0 and 70.
\<close>

theorem confidence_floor:
  "(trim s \<noteq> [] \<longrightarrow> 70 \<le> confidence (detectHeadline U s)) \<and>
   \<not> (0 < confidence (detectHeadline U s) \<and> confidence (detectHeadline U s) < 70)"
proof (cases "trim s = []")
  case True
  then show ?thesis by (simp add: detectHeadline_def Let_def)
next
  case False
  with confidence_scoreState_bounds(1) [where s = s and U = U] show ?thesis
    by (simp add: detectHeadline_nonempty)
qed

theorem confidence_floor_witness:
  "trim (js ''City council approves new budget for road repairs'') \<noteq> [] \<and>
   70 \<le> confidence (detectHeadline asciiCase (js ''City council approves new budget for road repairs''))"
  using confidence_floor [where U = asciiCase
      and s = "js ''City council approves new budget for road repairs''"]
    city_council_state(1)
  by simp

subsection \<open>The decision thresholds\<close>

text \<open>
  Claim C3. For every input whose trimmed form is not empty, with \<open>finalScore\<close> the
  difference of \<open>fakeScore\<close> and \<open>trustScore\<close>: if \<open>finalScore \<ge> 3\<close> the label is fake
  and the confidence is \<open>min(95, round(85 + min(fakeScore * 2, 10)))\<close>; otherwise, if
  \<open>finalScore \<le> -2\<close>, the label is trustworthy and the confidence is
  \<open>min(95, round(80 + min(trustScore * 2, 15)))\<close>; otherwise, in the band from -1 to 2,
  the label is fake if \<open>finalScore > 0\<close> and trustworthy if not, and the confidence is
  \<open>min(95, round(70 + |finalScore| * 5))\<close>.
\<close>

theorem decision_thresholds:
  "trim s \<noteq> [] \<Longrightarrow>
   (let F = fakeScore (scoreState U s); T = trustScore (scoreState U s);
        finalScore = F - T; r = detectHeadline U s
    in (finalScore \<ge> 3 \<longrightarrow>
          label r = Fake \<and>
          confidence r = min 95 (Math_round (85 + min (of_int F * 2) 10))) \<and>
       (\<not> finalScore \<ge> 3 \<and> finalScore \<le> - 2 \<longrightarrow>
          label r = Trustworthy \<and>
          confidence r = min 95 (Math_round (80 + min (of_int T * 2) 15))) \<and>
       (- 1 \<le> finalScore \<and> finalScore \<le> 2 \<longrightarrow>
          label r = (if finalScore > 0 then Fake else Trustworthy) \<and>
          confidence r = min 95 (Math_round (70 + \<bar>of_int finalScore\<bar> * 5))))"
proof -
  assume ne: "trim s \<noteq> []"
  have "(85::rat) + min (of_int F * 2) 10 = of_int (85 + min (F * 2) 10)" for F :: int
    by (simp add: min_def)
  then have r1: "Math_round (85 + min (of_int F * 2) 10) = 85 + min (F * 2) 10" for F :: int
    by (simp only: Math_round_of_int)
  have "(80::rat) + min (of_int T * 2) 15 = of_int (80 + min (T * 2) 15)" for T :: int
    by (simp add: min_def)
  then have r2: "Math_round (80 + min (of_int T * 2) 15) = 80 + min (T * 2) 15" for T :: int
    by (simp only: Math_round_of_int)
  have "(70::rat) + \<bar>of_int f\<bar> * 5 = of_int (70 + \<bar>f\<bar> * 5)" for f :: int
    by simp
  then have r3: "Math_round (70 + \<bar>of_int f\<bar> * 5) = 70 + \<bar>f\<bar> * 5" for f :: int
    by (simp only: Math_round_of_int)
  show ?thesis
    unfolding Let_def detectHeadline_nonempty [OF ne] label_decide confidence_decide r1 r2 r3
    by simp
qed

theorem decision_thresholds_witness:
  "(trim (js ''  Immortality pill found!  '') \<noteq> [] \<and>
    label (detectHeadline asciiCase (js ''  Immortality pill found!  '')) = Fake \<and>
    confidence (detectHeadline asciiCase (js ''  Immortality pill found!  '')) = 95) \<and>
   (trim (js ''A new study of the bay shows that the fish are back in the old port'') \<noteq> [] \<and>
    label (detectHeadline asciiCase
      (js ''A new study of the bay shows that the fish are back in the old port'')) =
      Trustworthy \<and>
    confidence (detectHeadline asciiCase
      (js ''A new study of the bay shows that the fish are back in the old port'')) = 90) \<and>
   (trim (js ''Hello world!'') \<noteq> [] \<and>
    label (detectHeadline asciiCase (js ''Hello world!'')) = Fake \<and>
    confidence (detectHeadline asciiCase (js ''Hello world!'')) = 80)"
  using decision_thresholds [where U = asciiCase, OF immortality_pill_state(1)]
    decision_thresholds [where U = asciiCase, OF river_study_state(1)]
    decision_thresholds [where U = asciiCase, OF hello_world_state(1)]
  unfolding Let_def immortality_pill_state(2,3) river_study_state(2,3) hello_world_state(2,3)
  by (simp add: Math_round_numeral immortality_pill_state(1) river_study_state(1)
      hello_world_state(1))

subsection \<open>The neutral headline\<close>

text \<open>
  Claim C7, as the specification states it: the headline
  "City council approves new budget for road repairs" is labelled trustworthy with
  confidence 83. The confidence is not 83.
\<close>

theorem neutral_default_counterexample:
  "\<not> (label (detectHeadline asciiCase (js ''City council approves new budget for road repairs'')) =
        Trustworthy \<and>
      confidence (detectHeadline asciiCase (js ''City council approves new budget for road repairs'')) =
        83)"
  by (simp add: detectHeadline_nonempty confidence_decide city_council_state)

text \<open>
  Claim C7, amended. The headline "City council approves new budget for road repairs"
  is labelled trustworthy with confidence 70 and the neutral explanation: no rule is
  triggered, both scores are 0, so \<open>finalScore\<close> is 0 and the decision is taken in the
  borderline branch, which gives \<open>70 + 0\<close>.
\<close>

theorem neutral_default:
  "detectHeadline asciiCase (js ''City council approves new budget for road repairs'') =
     \<lparr>label = Trustworthy, confidence = 70,
      explanation = js ''The headline appears neutral and does not match common patterns of misleading or sensational content.''\<rparr> \<and>
   reasons (scoreState asciiCase (js ''City council approves new budget for road repairs'')) = [] \<and>
   fakeScore (scoreState asciiCase (js ''City council approves new budget for road repairs'')) = 0 \<and>
   trustScore (scoreState asciiCase (js ''City council approves new budget for road repairs'')) = 0"
  by (simp add: detectHeadline_nonempty decide_def Let_def Math_round_numeral
      neutralExplanation_def city_council_state)

subsection \<open>The rule categories\<close>

lemma spec_contribution_source:
  "spec_contribution ImpossibleClaims lower = (if containsAny lower impossibleClaims then 5 else 0)"
  "spec_contribution StrongClickbait lower = (if containsAny lower strongClickbait then 4 else 0)"
  "spec_contribution SensationalWords lower = (if containsAny lower sensationalWords then 3 else 0)"
  "spec_contribution AbsoluteLanguage lower = (if containsAny lower absoluteLanguage then 2 else 0)"
  "spec_contribution TrustworthyCues lower = (if containsAny lower trustworthyCues then 4 else 0)"
  by (simp_all add: spec_contribution_def spec_fires_iff)

lemma fakeScore_scoreState:
  "fakeScore (scoreState U s) =
     spec_contribution ImpossibleClaims (toLowerCase U (trim s)) +
     spec_contribution StrongClickbait (toLowerCase U (trim s)) +
     spec_contribution SensationalWords (toLowerCase U (trim s)) +
     spec_contribution AbsoluteLanguage (toLowerCase U (trim s)) +
     structuralFake U (trim s)"
  unfolding scoreState_def fakeScore_scoring spec_contribution_source structuralFake_def
  by simp

lemma trustScore_scoreState:
  "trustScore (scoreState U s) =
     spec_contribution TrustworthyCues (toLowerCase U (trim s)) +
     (if length (split_ws (trim s)) > 14 then 1 else 0)"
  unfolding scoreState_def trustScore_scoring spec_contribution_source
  by (rule refl)

lemma spec_phrases_nonempty: "[] \<notin> set (spec_phrases c)"
  by (cases c) (simp_all add: table_defs js_def)

lemma toLowerCase_ascii: "isAscii s \<Longrightarrow> toLowerCase U s = map toLowerCaseUnit s"
  by (simp add: toLowerCase_def)

lemma isAscii_sublist: "sublist q s \<Longrightarrow> isAscii s \<Longrightarrow> isAscii q"
  by (auto simp: isAscii_def list_all_iff dest: set_mono_sublist)

text \<open>
  On an ASCII headline matching ignores the case of the letters and the limits of the
  words: a category fires as soon as some piece of the trimmed headline, anywhere in
  it, is one of the phrases once put in lower case.
\<close>

lemma spec_fires_case_insensitive:
  assumes "isAscii (trim s)" and "sublist q (trim s)"
    and "toLowerCase U q \<in> set (spec_phrases c)"
  shows "spec_fires c (toLowerCase U (trim s))"
proof -
  have q: "toLowerCase U q = map toLowerCaseUnit q"
    by (rule toLowerCase_ascii) (rule isAscii_sublist [OF assms(2,1)])
  from assms(2) have "sublist (map toLowerCaseUnit q) (map toLowerCaseUnit (trim s))"
    by (rule map_mono_sublist)
  with assms(1) have "sublist (toLowerCase U q) (toLowerCase U (trim s))"
    by (simp add: q toLowerCase_ascii)
  with assms(3) show ?thesis
    by (auto simp: spec_fires_def)
qed

text \<open>
  Claim C4. For every input and each of the five rule categories: if the trimmed
  headline in lower case (as the runtime's \<open>toLowerCase\<close> gives it) contains one of
  the phrases of the category as a contiguous piece, the category contributes its
  weight once, however many of its phrases match, and it contributes nothing
  otherwise. For an input that is not blank these are the scores from which the result
  is decided: the contributions of the four fake-leaning categories and of the rules on
  the shape of the headline add up to \<open>fakeScore\<close>, the contribution of the
  trustworthy cues and the point for a long headline add up to \<open>trustScore\<close>. A
  blank input contains no phrase, and nothing is scored for it.
\<close>

theorem category_contributions:
  "(let lower = toLowerCase U (trim s)
    in (trim s \<noteq> [] \<longrightarrow>
          detectHeadline U s = decide (scoreState U s) \<and>
          fakeScore (scoreState U s) =
            (if \<exists>p \<in> set impossibleClaims. sublist p lower then 5 else 0) +
            (if \<exists>p \<in> set strongClickbait. sublist p lower then 4 else 0) +
            (if \<exists>p \<in> set sensationalWords. sublist p lower then 3 else 0) +
            (if \<exists>p \<in> set absoluteLanguage. sublist p lower then 2 else 0) +
            structuralFake U (trim s) \<and>
          trustScore (scoreState U s) =
            (if \<exists>p \<in> set trustworthyCues. sublist p lower then 4 else 0) +
            (if length (split_ws (trim s)) > 14 then 1 else 0)) \<and>
       (trim s = [] \<longrightarrow> (\<forall>c. \<forall>p \<in> set (spec_phrases c). \<not> sublist p lower)) \<and>
       (\<forall>c. spec_contribution c lower =
          (if \<exists>p \<in> set (spec_phrases c). sublist p lower then spec_weight c else 0)))"
proof -
  have blank: "\<forall>c. \<forall>p \<in> set (spec_phrases c). \<not> sublist p (toLowerCase U (trim s))"
    if "trim s = []"
    using that spec_phrases_nonempty by (auto simp: toLowerCase_def isAscii_def)
  show ?thesis
    unfolding Let_def fakeScore_scoreState trustScore_scoreState
    using blank by (simp add: spec_contribution_def spec_fires_def detectHeadline_nonempty)
qed

theorem category_contributions_witness:
  "trim (js ''  Immortality pill found!  '') \<noteq> [] \<and>
   fakeScore (scoreState asciiCase (js ''  Immortality pill found!  '')) = 5 + 0 + 0 + 0 + 2 \<and>
   trustScore (scoreState asciiCase (js ''  Immortality pill found!  '')) = 0 + 0 \<and>
   sublist (js ''immortal'') (toLowerCase asciiCase (trim (js ''  Immortality pill found!  ''))) \<and>
   sublist (js ''immortality'') (toLowerCase asciiCase (trim (js ''  Immortality pill found!  '')))"
proof -
  have lower: "toLowerCase asciiCase (trim (js ''  Immortality pill found!  '')) =
      js ''immortality pill found!''"
    by (simp only: immortality_pill_trim immortality_pill_lower)
  note fires = immortality_pill_categories [unfolded containsAny_iff]
  have twice: "sublist (js ''immortal'') (js ''immortality pill found!'')"
    "sublist (js ''immortality'') (js ''immortality pill found!'')"
    by (simp_all add: js_def eval_add flip: includes_js_sublist del: eval_del)
  from category_contributions [where U = asciiCase and s = "js ''  Immortality pill found!  ''"]
  have "fakeScore (scoreState asciiCase (js ''  Immortality pill found!  '')) = 5 + 0 + 0 + 0 + 2 \<and>
    trustScore (scoreState asciiCase (js ''  Immortality pill found!  '')) = 0 + 0"
    unfolding Let_def lower
    using immortality_pill_state(1)
    by (simp add: fires immortality_pill_state(5) [unfolded immortality_pill_trim]
        immortality_pill_trim immortality_pill_words)
  with twice immortality_pill_state(1) show ?thesis
    unfolding lower by simp
qed

subsection \<open>The explanation\<close>

lemma join_js_Cons: "join_js sep (x # xs) = x @ concat (map (\<lambda>y. sep @ y) xs)"
  by (induction xs arbitrary: x) simp_all

text \<open>
  Claim C5, as the specification states it: the explanation is made of the sentences
  of the triggered rules in category-then-structural order, the five categories in the
  order of section 4.2 and then the rules on the shape of the headline. On
  "Shocking miracle study!" the sentence of the trustworthy cues would then come
  before the sentence of the exclamation mark; the source tests the trustworthy cues
  last, and its explanation has the two sentences the other way round.
\<close>

theorem explanation_formation_counterexample:
  "explanation (detectHeadline asciiCase (js ''Shocking miracle study!'')) \<noteq>
     join_js (js '' '')
       (spec_triggered_categoryFirst asciiCase (trim (js ''Shocking miracle study!''))
         (toLowerCase asciiCase (trim (js ''Shocking miracle study!'')))) \<and>
   spec_triggered_categoryFirst asciiCase (trim (js ''Shocking miracle study!''))
       (toLowerCase asciiCase (trim (js ''Shocking miracle study!''))) =
     [js ''Uses strong clickbait language associated with fake headlines.'',
      js ''Contains sensational or emotionally-loaded words.'',
      js ''References research, data, universities, or official sources.'',
      js ''Contains an exclamation mark, a common indicator of strong sensationalism.''] \<and>
   reasons (scoreState asciiCase (js ''Shocking miracle study!'')) =
     [js ''Uses strong clickbait language associated with fake headlines.'',
      js ''Contains sensational or emotionally-loaded words.'',
      js ''Contains an exclamation mark, a common indicator of strong sensationalism.'',
      js ''References research, data, universities, or official sources.'']"
proof -
  have first: "spec_triggered_categoryFirst asciiCase (trim (js ''Shocking miracle study!''))
       (toLowerCase asciiCase (trim (js ''Shocking miracle study!''))) =
     [js ''Uses strong clickbait language associated with fake headlines.'',
      js ''Contains sensational or emotionally-loaded words.'',
      js ''References research, data, universities, or official sources.'',
      js ''Contains an exclamation mark, a common indicator of strong sensationalism.'']"
    by (simp add: spec_triggered_categoryFirst_def spec_fires_iff shocking_study_trim
        shocking_study_lower shocking_study_categories shocking_study_words
        shocking_study_allCaps shocking_study_exclamations flip: exclamations_count)
  have "explanation (detectHeadline asciiCase (js ''Shocking miracle study!'')) =
     join_js (js '' '')
       [js ''Uses strong clickbait language associated with fake headlines.'',
        js ''Contains sensational or emotionally-loaded words.'',
        js ''Contains an exclamation mark, a common indicator of strong sensationalism.'',
        js ''References research, data, universities, or official sources.'']"
    by (simp add: detectHeadline_nonempty explanation_decide shocking_study_state)
  then have "explanation (detectHeadline asciiCase (js ''Shocking miracle study!'')) \<noteq>
     join_js (js '' '')
       [js ''Uses strong clickbait language associated with fake headlines.'',
        js ''Contains sensational or emotionally-loaded words.'',
        js ''References research, data, universities, or official sources.'',
        js ''Contains an exclamation mark, a common indicator of strong sensationalism.'']"
    by (simp add: js_def)
  with first shocking_study_state(4) [where U = asciiCase] show ?thesis
    by (simp only: simp_thms)
qed

text \<open>
  Claim C5, amended. For every input whose trimmed form is not empty, the
  explanation is made of the sentences of the triggered rules in the order in which
  the source evaluates the rules (impossible claims, strong clickbait, sensational
  words, absolute language, exclamation marks, capital words, trustworthy cues), with
  one space between two sentences; if no rule with a sentence is triggered it is the
  sentence "The headline appears neutral and does not match common patterns of
  misleading or sensational content.".
\<close>

theorem explanation_formation:
  "trim s \<noteq> [] \<Longrightarrow>
   explanation (detectHeadline U s) =
     (case spec_triggered U (trim s) (toLowerCase U (trim s)) of
        [] \<Rightarrow> js ''The headline appears neutral and does not match common patterns of misleading or sensational content.''
      | r # rs \<Rightarrow> r @ concat (map (\<lambda>x. js '' '' @ x) rs))"
  by (simp add: detectHeadline_nonempty explanation_decide scoreState_def reasons_scoring
      neutralExplanation_def join_js_Cons split: list.splits)

theorem explanation_formation_witness:
  "trim (js ''Shocking miracle study!'') \<noteq> [] \<and>
   explanation (detectHeadline asciiCase (js ''Shocking miracle study!'')) =
     js (''Uses strong clickbait language associated with fake headlines. '' @
         ''Contains sensational or emotionally-loaded words. '' @
         ''Contains an exclamation mark, a common indicator of strong sensationalism. '' @
         ''References research, data, universities, or official sources.'') \<and>
   trim (js ''City council approves new budget for road repairs'') \<noteq> [] \<and>
   explanation (detectHeadline asciiCase (js ''City council approves new budget for road repairs'')) =
     js ''The headline appears neutral and does not match common patterns of misleading or sensational content.''"
proof -
  have a: "spec_triggered asciiCase (trim (js ''Shocking miracle study!''))
      (toLowerCase asciiCase (trim (js ''Shocking miracle study!''))) =
    [js ''Uses strong clickbait language associated with fake headlines.'',
     js ''Contains sensational or emotionally-loaded words.'',
     js ''Contains an exclamation mark, a common indicator of strong sensationalism.'',
     js ''References research, data, universities, or official sources.'']"
    using shocking_study_state(4) [where U = asciiCase]
    by (simp only: scoreState_def reasons_scoring)
  have b: "spec_triggered asciiCase (trim (js ''City council approves new budget for road repairs''))
      (toLowerCase asciiCase (trim (js ''City council approves new budget for road repairs''))) = []"
    using city_council_state(4) [where U = asciiCase]
    by (simp only: scoreState_def reasons_scoring)
  have e1: "explanation (detectHeadline asciiCase (js ''Shocking miracle study!'')) =
     js (''Uses strong clickbait language associated with fake headlines. '' @
         ''Contains sensational or emotionally-loaded words. '' @
         ''Contains an exclamation mark, a common indicator of strong sensationalism. '' @
         ''References research, data, universities, or official sources.'')"
    using explanation_formation [where U = asciiCase, OF shocking_study_state(1)] unfolding a
    by (simp add: js_def)
  have e2: "explanation (detectHeadline asciiCase (js ''City council approves new budget for road repairs'')) =
     js ''The headline appears neutral and does not match common patterns of misleading or sensational content.''"
    using explanation_formation [where U = asciiCase, OF city_council_state(1)] unfolding b
    by simp
  from e1 e2 shocking_study_state(1) city_council_state(1) show ?thesis
    by simp
qed

subsection \<open>Words and the length analysis\<close>

text \<open>
  The pieces that \<open>split_ws\<close> returns hold no white space, and together they are
  the string without its white space. When the string neither starts nor ends with
  white space, as a trimmed headline does, no piece is empty: the pieces are the words.
\<close>

lemma split_ws_unfold:
  "split_ws s =
     (if dropWhile (\<lambda>c. \<not> isWhiteSpace c) s = []
      then [takeWhile (\<lambda>c. \<not> isWhiteSpace c) s]
      else takeWhile (\<lambda>c. \<not> isWhiteSpace c) s #
           split_ws (dropWhile isWhiteSpace (dropWhile (\<lambda>c. \<not> isWhiteSpace c) s)))"
  by (subst split_ws.simps) (simp add: Let_def)

lemma split_ws_no_whitespace:
  "w \<in> set (split_ws s) \<Longrightarrow> c \<in> set w \<Longrightarrow> \<not> isWhiteSpace c"
proof (induction s rule: split_ws.induct)
  case (1 s)
  let ?w = "takeWhile (\<lambda>c. \<not> isWhiteSpace c) s"
  let ?r = "dropWhile (\<lambda>c. \<not> isWhiteSpace c) s"
  from "1.prems"(1) consider "w = ?w" | "?r \<noteq> []" "w \<in> set (split_ws (dropWhile isWhiteSpace ?r))"
    by (subst (asm) split_ws_unfold) (auto split: if_splits)
  then show ?case
  proof cases
    case 1
    with "1.prems"(2) show ?thesis
      by (auto dest: set_takeWhileD)
  next
    case 2
    with "1.IH" [OF refl refl] "1.prems"(2) show ?thesis
      by simp
  qed
qed

lemma filter_dropWhile_not: "filter P (dropWhile (\<lambda>x. \<not> P x) xs) = filter P xs"
  by (induction xs) auto

lemma split_ws_last:
  "dropWhile (\<lambda>c. \<not> isWhiteSpace c) s = [] \<Longrightarrow>
   split_ws s = [takeWhile (\<lambda>c. \<not> isWhiteSpace c) s]"
  by (subst split_ws_unfold) (simp only: simp_thms if_True)

lemma split_ws_more:
  "dropWhile (\<lambda>c. \<not> isWhiteSpace c) s \<noteq> [] \<Longrightarrow>
   split_ws s =
     takeWhile (\<lambda>c. \<not> isWhiteSpace c) s #
     split_ws (dropWhile isWhiteSpace (dropWhile (\<lambda>c. \<not> isWhiteSpace c) s))"
  by (subst split_ws_unfold) (simp only: simp_thms if_False)

lemma concat_split_ws: "concat (split_ws s) = filter (\<lambda>c. \<not> isWhiteSpace c) s"
proof (induction s rule: split_ws.induct)
  case (1 s)
  let ?P = "\<lambda>c. \<not> isWhiteSpace c"
  let ?w = "takeWhile ?P s"
  let ?r = "dropWhile ?P s"
  have fw: "filter ?P ?w = ?w"
    by (rule filter_True) (auto dest: set_takeWhileD)
  have "filter ?P (?w @ ?r) = filter ?P ?w @ filter ?P ?r"
    by (rule filter_append)
  then have s: "filter ?P s = ?w @ filter ?P ?r"
    unfolding fw takeWhile_dropWhile_id .
  show ?case
  proof (cases "?r = []")
    case True
    have "filter ?P ?r = []"
      unfolding True by (rule filter.simps(1))
    then show ?thesis
      unfolding s split_ws_last [OF True] by (simp only: concat.simps append_Nil2)
  next
    case False
    have "filter ?P (dropWhile (\<lambda>x. \<not> \<not> isWhiteSpace x) ?r) = filter ?P ?r"
      by (rule filter_dropWhile_not)
    then have "filter ?P (dropWhile isWhiteSpace ?r) = filter ?P ?r"
      by (simp only: not_not)
    with "1.IH" [OF refl refl False]
    have "concat (split_ws (dropWhile isWhiteSpace ?r)) = filter ?P ?r"
      by (simp only:)
    then show ?thesis
      unfolding s split_ws_more [OF False] by (simp only: concat.simps)
  qed
qed

lemma last_dropWhile: "dropWhile P xs \<noteq> [] \<Longrightarrow> last (dropWhile P xs) = last xs"
  by (induction xs) (auto split: if_splits)

lemma split_ws_nonempty_words:
  "s \<noteq> [] \<Longrightarrow> \<not> isWhiteSpace (hd s) \<Longrightarrow> \<not> isWhiteSpace (last s) \<Longrightarrow> [] \<notin> set (split_ws s)"
proof (induction s rule: split_ws.induct)
  case (1 s)
  let ?P = "\<lambda>c. \<not> isWhiteSpace c"
  let ?w = "takeWhile ?P s"
  let ?r = "dropWhile ?P s"
  let ?s' = "dropWhile isWhiteSpace ?r"
  from "1.prems"(1,2) have w: "?w \<noteq> []"
    by (simp add: takeWhile_eq_Nil_iff)
  show ?case
  proof (cases "?r = []")
    case True
    with w show ?thesis
      by (simp add: split_ws_last)
  next
    case False
    then have "last ?r = last s"
      by (rule last_dropWhile)
    with "1.prems"(3) have "\<not> isWhiteSpace (last ?r)"
      by simp
    have ne: "?s' \<noteq> []"
    proof
      assume "?s' = []"
      then have "\<forall>x \<in> set ?r. isWhiteSpace x"
        by (simp only: dropWhile_eq_Nil_conv)
      moreover from False have "last ?r \<in> set ?r"
        by (rule last_in_set)
      ultimately show False
        using \<open>\<not> isWhiteSpace (last ?r)\<close> by blast
    qed
    then have hd: "\<not> isWhiteSpace (hd ?s')"
      by (rule hd_dropWhile)
    from ne have "last ?s' = last ?r"
      by (rule last_dropWhile)
    with \<open>\<not> isWhiteSpace (last ?r)\<close> have "\<not> isWhiteSpace (last ?s')"
      by simp
    with "1.IH" [OF refl refl False ne hd] have "[] \<notin> set (split_ws ?s')" .
    with w show ?thesis
      by (simp add: split_ws_more [OF False])
  qed
qed

lemma trim_ends:
  assumes "trim s \<noteq> []"
  shows "\<not> isWhiteSpace (hd (trim s))" and "\<not> isWhiteSpace (last (trim s))"
proof -
  let ?d = "dropWhile isWhiteSpace s"
  let ?e = "dropWhile isWhiteSpace (rev ?d)"
  from assms have e: "?e \<noteq> []"
    by (simp add: trim_def)
  have d: "?d \<noteq> []"
  proof
    assume a: "?d = []"
    have "?e = []"
      unfolding a by simp
    with e show False ..
  qed
  from e have "\<not> isWhiteSpace (hd ?e)"
    by (rule hd_dropWhile)
  with e show "\<not> isWhiteSpace (last (trim s))"
    by (simp add: trim_def last_rev)
  have "hd (trim s) = last ?e"
    using e by (simp add: trim_def hd_rev)
  also have "\<dots> = last (rev ?d)"
    using e by (rule last_dropWhile)
  also have "\<dots> = hd ?d"
    using d by (simp add: last_rev)
  finally show "\<not> isWhiteSpace (hd (trim s))"
    using hd_dropWhile [OF d] by simp
qed

lemma split_ws_trim_words:
  assumes "trim s \<noteq> []" and "w \<in> set (split_ws (trim s))"
  shows "w \<noteq> []" and "\<forall>c \<in> set w. \<not> isWhiteSpace c"
proof -
  from trim_ends [OF assms(1)] assms(1) have "[] \<notin> set (split_ws (trim s))"
    by (intro split_ws_nonempty_words)
  with assms(2) show "w \<noteq> []"
    by blast
  from assms(2) show "\<forall>c \<in> set w. \<not> isWhiteSpace c"
    by (blast dest: split_ws_no_whitespace)
qed

text \<open>
  Claim C6. For every input whose trimmed form is not empty, the words are the
  pieces of the trimmed headline between runs of white space. The length analysis
  takes the scores as the rules before it left them: with more than 14 words it adds
  exactly 1 to \<open>trustScore\<close>, with fewer than 5 words it adds exactly 1 to
  \<open>fakeScore\<close>, and in no case does it add a sentence to the explanation.
\<close>

theorem length_analysis:
  "trim s \<noteq> [] \<Longrightarrow>
   (let original = trim s; lower = toLowerCase U original; words = split_ws original;
        before = beforeLengthAnalysis U original lower; after = scoring U original lower
    in detectHeadline U s = decide after \<and>
       (\<forall>w \<in> set words. w \<noteq> [] \<and> (\<forall>c \<in> set w. \<not> isWhiteSpace c)) \<and>
       concat words = filter (\<lambda>c. \<not> isWhiteSpace c) original \<and>
       trustScore after = trustScore before + (if length words > 14 then 1 else 0) \<and>
       fakeScore after = fakeScore before + (if length words < 5 then 1 else 0) \<and>
       reasons after = reasons before)"
proof -
  assume ne: "trim s \<noteq> []"
  have words: "\<forall>w \<in> set (split_ws (trim s)). w \<noteq> [] \<and> (\<forall>c \<in> set w. \<not> isWhiteSpace c)"
    using split_ws_trim_words [OF ne] by blast
  have steps:
    "trustScore (scoring U original lower) =
       trustScore (beforeLengthAnalysis U original lower) +
       (if length (split_ws original) > 14 then 1 else 0)"
    "fakeScore (scoring U original lower) =
       fakeScore (beforeLengthAnalysis U original lower) +
       (if length (split_ws original) < 5 then 1 else 0)"
    "reasons (scoring U original lower) = reasons (beforeLengthAnalysis U original lower)"
    for original lower
    unfolding scoring_after_beforeLengthAnalysis fakeScore_rules trustScore_rules reasons_rules
    by (rule refl)+
  from ne have "detectHeadline U s = decide (scoring U (trim s) (toLowerCase U (trim s)))"
    by (simp add: detectHeadline_nonempty scoreState_def)
  with words show ?thesis
    unfolding Let_def by (simp only: steps concat_split_ws simp_thms)
qed

theorem length_analysis_witness:
  "(trim (js ''A new study of the bay shows that the fish are back in the old port'') \<noteq> [] \<and>
    length (split_ws
      (trim (js ''A new study of the bay shows that the fish are back in the old port''))) =
      16 \<and>
    trustScore (beforeLengthAnalysis asciiCase
      (trim (js ''A new study of the bay shows that the fish are back in the old port''))
      (toLowerCase asciiCase
        (trim (js ''A new study of the bay shows that the fish are back in the old port'')))) + 1 =
      5 \<and>
    reasons (beforeLengthAnalysis asciiCase
      (trim (js ''A new study of the bay shows that the fish are back in the old port''))
      (toLowerCase asciiCase
        (trim (js ''A new study of the bay shows that the fish are back in the old port'')))) =
      [js ''References research, data, universities, or official sources.'']) \<and>
   (trim (js ''Hello world!'') \<noteq> [] \<and>
    length (split_ws (trim (js ''Hello world!''))) = 2 \<and>
    fakeScore (beforeLengthAnalysis asciiCase (trim (js ''Hello world!''))
      (toLowerCase asciiCase (trim (js ''Hello world!'')))) + 1 = 2)"
proof -
  have n: "length (split_ws
      (trim (js ''A new study of the bay shows that the fish are back in the old port''))) =
      16"
    "length (split_ws (trim (js ''Hello world!''))) = 2"
    by (simp_all add: river_study_trim river_study_words hello_world_trim hello_world_words)
  from length_analysis [where U = asciiCase, OF river_study_state(1)]
    length_analysis [where U = asciiCase, OF hello_world_state(1)]
  show ?thesis
    unfolding Let_def n
    using river_study_state(1,3,4) hello_world_state(1,2)
    by (simp add: scoreState_def)
qed

subsection \<open>ASCII headlines\<close>

text \<open>
  On a headline of ASCII code units neither the result nor the scores depend on the
  case tables: whatever \<open>U\<close> is, the detector returns what it returns for
  \<open>asciiCase\<close>.
\<close>

lemma isAscii_trim: "isAscii s \<Longrightarrow> isAscii (trim s)"
  by (auto simp: isAscii_def trim_def list_all_iff dest!: set_dropWhileD)

lemma isAscii_split_ws:
  assumes "isAscii t" and "w \<in> set (split_ws t)"
  shows "isAscii w"
proof -
  from assms(2) have "set w \<subseteq> set (concat (split_ws t))"
    by auto
  also have "\<dots> \<subseteq> set t"
    unfolding concat_split_ws by auto
  finally show ?thesis
    using assms(1) by (auto simp: isAscii_def list_all_iff)
qed

lemma allCaps_ascii:
  assumes "isAscii t"
  shows "allCaps U (split_ws t) = allCaps U' (split_ws t)"
  unfolding allCaps_def
proof (rule filter_cong [OF refl])
  fix w assume "w \<in> set (split_ws t)"
  with assms have "isAscii w"
    by (rule isAscii_split_ws)
  then show "(4 \<le> length w \<and> w = toUpperCase U w) = (4 \<le> length w \<and> w = toUpperCase U' w)"
    by (simp add: toUpperCase_def)
qed

lemma ascii_independent:
  assumes "isAscii s"
  shows detectHeadline_ascii: "detectHeadline U s = detectHeadline U' s"
    and scoreState_ascii: "scoreState U s = scoreState U' s"
    and structuralFake_ascii: "structuralFake U (trim s) = structuralFake U' (trim s)"
    and spec_fakeCategories_ascii: "spec_fakeCategories U s = spec_fakeCategories U' s"
proof -
  from assms have t: "isAscii (trim s)"
    by (rule isAscii_trim)
  then have l: "toLowerCase U (trim s) = toLowerCase U' (trim s)"
    by (simp add: toLowerCase_def)
  have c: "allCaps U (split_ws (trim s)) = allCaps U' (split_ws (trim s))"
    using t by (rule allCaps_ascii)
  show "detectHeadline U s = detectHeadline U' s"
    unfolding detectHeadline_def scoring_def allCapsRule_def Let_def l c by (rule refl)
  show "scoreState U s = scoreState U' s"
    unfolding scoreState_def scoring_def allCapsRule_def Let_def l c by (rule refl)
  show "structuralFake U (trim s) = structuralFake U' (trim s)"
    unfolding structuralFake_def c by (rule refl)
  show "spec_fakeCategories U s = spec_fakeCategories U' s"
    unfolding spec_fakeCategories_def l by (rule refl)
qed

subsection \<open>Monotonicity in the fake-leaning categories\<close>

lemma label_detectHeadline:
  "label (detectHeadline U s) =
     (if trim s = [] \<or> fakeScore (scoreState U s) - trustScore (scoreState U s) \<ge> 1
      then Fake else Trustworthy)"
  by (cases "trim s = []")
    (simp_all add: detectHeadline_def Let_def label_decide flip: scoreState_def)

lemma spec_fakeCategories_mem:
  "c \<in> set (spec_fakeCategories U s) \<longleftrightarrow>
     c \<noteq> TrustworthyCues \<and> spec_fires c (toLowerCase U (trim s))"
  by (cases c) (auto simp: spec_fakeCategories_def)

lemma spec_contribution_mono:
  "(spec_fires c l1 \<Longrightarrow> spec_fires c l2) \<Longrightarrow> spec_contribution c l1 \<le> spec_contribution c l2"
  by (cases c) (auto simp: spec_contribution_def)

text \<open>
  Claim C9, as the specification states it: when the second input triggers every
  fake-leaning category that the first triggers and the trust-leaning contributions are
  the same, the second \<open>fakeScore\<close> is at least the first, and the second input is
  not labelled trustworthy if the first is labelled fake. The pair
  "BREAKING NEWS!! study" and "a study never said this" is such a pair (no category
  against absolute language; the trustworthy cue \<open>study\<close> in both, neither of them
  long), yet \<open>fakeScore\<close> falls from 7 to 2 and the label goes from fake to
  trustworthy: the first headline has its score from exclamation marks, capital words
  and its shortness, which are no categories. The empty string and
  "City council approves new budget for road repairs" are another such pair (no
  category and no trust-leaning contribution on either side): the first is labelled
  fake by the sentinel, the second trustworthy.
\<close>

theorem fake_monotone_counterexample:
  "set (spec_fakeCategories asciiCase (js ''BREAKING NEWS!! study'')) \<subseteq>
     set (spec_fakeCategories asciiCase (js ''a study never said this'')) \<and>
   spec_fakeCategories asciiCase (js ''BREAKING NEWS!! study'') = [] \<and>
   spec_fakeCategories asciiCase (js ''a study never said this'') = [AbsoluteLanguage] \<and>
   spec_contribution TrustworthyCues
     (toLowerCase asciiCase (trim (js ''BREAKING NEWS!! study''))) = 4 \<and>
   spec_contribution TrustworthyCues
     (toLowerCase asciiCase (trim (js ''a study never said this''))) = 4 \<and>
   length (split_ws (trim (js ''BREAKING NEWS!! study''))) = 3 \<and>
   length (split_ws (trim (js ''a study never said this''))) = 5 \<and>
   trustScore (scoreState asciiCase (js ''BREAKING NEWS!! study'')) = 4 \<and>
   trustScore (scoreState asciiCase (js ''a study never said this'')) = 4 \<and>
   fakeScore (scoreState asciiCase (js ''BREAKING NEWS!! study'')) = 7 \<and>
   fakeScore (scoreState asciiCase (js ''a study never said this'')) = 2 \<and>
   \<not> fakeScore (scoreState asciiCase (js ''BREAKING NEWS!! study'')) \<le>
       fakeScore (scoreState asciiCase (js ''a study never said this'')) \<and>
   label (detectHeadline asciiCase (js ''BREAKING NEWS!! study'')) = Fake \<and>
   label (detectHeadline asciiCase (js ''a study never said this'')) = Trustworthy \<and>
   trim (js []) = [] \<and>
   spec_fakeCategories asciiCase (js []) = [] \<and>
   spec_fakeCategories asciiCase
     (js ''City council approves new budget for road repairs'') = [] \<and>
   spec_contribution TrustworthyCues (toLowerCase asciiCase (trim (js []))) = 0 \<and>
   trustScore (scoreState asciiCase
     (js ''City council approves new budget for road repairs'')) = 0 \<and>
   label (detectHeadline asciiCase (js [])) = Fake \<and>
   label (detectHeadline asciiCase
     (js ''City council approves new budget for road repairs'')) = Trustworthy"
proof -
  have blank: "trim (js []) = []"
    "spec_fakeCategories asciiCase (js []) = []"
    "spec_contribution TrustworthyCues (toLowerCase asciiCase (trim (js []))) = 0"
    "label (detectHeadline asciiCase (js [])) = Fake"
    by (simp_all add: trim_def js_def spec_fakeCategories_def spec_contribution_def
        spec_fires_def toLowerCase_def isAscii_def table_defs detectHeadline_def Let_def)
  have city: "spec_fakeCategories asciiCase
      (js ''City council approves new budget for road repairs'') = []"
    "label (detectHeadline asciiCase
      (js ''City council approves new budget for road repairs'')) = Trustworthy"
    by (simp_all add: spec_fakeCategories_def spec_fires_iff city_council_trim
        city_council_lower city_council_categories label_detectHeadline city_council_state
        js_Cons_not_Nil)
  have cats: "spec_fakeCategories asciiCase (js ''BREAKING NEWS!! study'') = []"
    "spec_fakeCategories asciiCase (js ''a study never said this'') = [AbsoluteLanguage]"
    "spec_contribution TrustworthyCues
       (toLowerCase asciiCase (trim (js ''BREAKING NEWS!! study''))) = 4"
    "spec_contribution TrustworthyCues
       (toLowerCase asciiCase (trim (js ''a study never said this''))) = 4"
    by (simp_all add: spec_fakeCategories_def spec_fires_iff spec_contribution_source
        breaking_news_trim breaking_news_lower breaking_news_categories
        study_never_trim study_never_lower study_never_categories)
  have len: "length (split_ws (trim (js ''BREAKING NEWS!! study''))) = 3"
    "length (split_ws (trim (js ''a study never said this''))) = 5"
    by (simp_all add: breaking_news_trim breaking_news_words study_never_trim study_never_words)
  have lab: "label (detectHeadline asciiCase (js ''BREAKING NEWS!! study'')) = Fake"
    "label (detectHeadline asciiCase (js ''a study never said this'')) = Trustworthy"
    by (simp_all add: label_detectHeadline breaking_news_state study_never_state)
  show ?thesis
    using cats len lab blank city breaking_news_state(2,3) [where U = asciiCase]
      study_never_state(2,3) [where U = asciiCase] city_council_state(3) [where U = asciiCase]
    by simp
qed

text \<open>
  Claim C9, amended. For two inputs whose trimmed forms are not empty: when the
  second input triggers every fake-leaning category that the first triggers, the rules
  on the shape of the headline (exclamation marks, capital words, a short headline) add
  to the second \<open>fakeScore\<close> at least what they add to the first, and \<open>trustScore\<close>
  is the same, then the second \<open>fakeScore\<close> is at least the first, and the second
  input is not labelled trustworthy if the first is labelled fake. A blank input has
  no scores and is labelled fake by the sentinel alone, whatever the other input is.
\<close>

theorem fake_monotone:
  assumes "trim s1 \<noteq> []" and "trim s2 \<noteq> []"
    and "set (spec_fakeCategories U s1) \<subseteq> set (spec_fakeCategories U s2)"
    and "structuralFake U (trim s1) \<le> structuralFake U (trim s2)"
    and "trustScore (scoreState U s1) = trustScore (scoreState U s2)"
  shows "detectHeadline U s1 = decide (scoreState U s1) \<and>
    detectHeadline U s2 = decide (scoreState U s2) \<and>
    fakeScore (scoreState U s1) \<le> fakeScore (scoreState U s2) \<and>
    (label (detectHeadline U s1) = Fake \<longrightarrow> label (detectHeadline U s2) \<noteq> Trustworthy)"
proof -
  have mono: "spec_contribution c (toLowerCase U (trim s1)) \<le>
      spec_contribution c (toLowerCase U (trim s2))" if "c \<noteq> TrustworthyCues" for c
  proof (rule spec_contribution_mono)
    assume "spec_fires c (toLowerCase U (trim s1))"
    with that have "c \<in> set (spec_fakeCategories U s1)"
      by (simp add: spec_fakeCategories_mem)
    with assms(3) have "c \<in> set (spec_fakeCategories U s2)"
      by blast
    then show "spec_fires c (toLowerCase U (trim s2))"
      by (simp add: spec_fakeCategories_mem)
  qed
  have le: "fakeScore (scoreState U s1) \<le> fakeScore (scoreState U s2)"
    unfolding fakeScore_scoreState
    using mono [of ImpossibleClaims] mono [of StrongClickbait] mono [of SensationalWords]
      mono [of AbsoluteLanguage] assms(4)
    by simp
  have "label (detectHeadline U s2) = Fake" if "label (detectHeadline U s1) = Fake"
  proof -
    from that assms(1) have "fakeScore (scoreState U s1) - trustScore (scoreState U s1) \<ge> 1"
      by (simp add: label_detectHeadline split: if_splits)
    with le assms(5) have "fakeScore (scoreState U s2) - trustScore (scoreState U s2) \<ge> 1"
      by simp
    then show ?thesis
      by (simp add: label_detectHeadline)
  qed
  with le assms(1,2) show ?thesis
    by (auto simp: detectHeadline_nonempty)
qed

theorem fake_monotone_witness:
  "trim (js ''Hello world!'') \<noteq> [] \<and>
   trim (js ''  Immortality pill found!  '') \<noteq> [] \<and>
   set (spec_fakeCategories asciiCase (js ''Hello world!'')) \<subseteq>
     set (spec_fakeCategories asciiCase (js ''  Immortality pill found!  '')) \<and>
   structuralFake asciiCase (trim (js ''Hello world!'')) \<le>
     structuralFake asciiCase (trim (js ''  Immortality pill found!  '')) \<and>
   trustScore (scoreState asciiCase (js ''Hello world!'')) =
     trustScore (scoreState asciiCase (js ''  Immortality pill found!  '')) \<and>
   fakeScore (scoreState asciiCase (js ''Hello world!'')) \<le>
     fakeScore (scoreState asciiCase (js ''  Immortality pill found!  '')) \<and>
   label (detectHeadline asciiCase (js ''Hello world!'')) = Fake \<and>
   label (detectHeadline asciiCase (js ''  Immortality pill found!  '')) \<noteq> Trustworthy"
proof -
  have cats: "set (spec_fakeCategories asciiCase (js ''Hello world!'')) \<subseteq>
     set (spec_fakeCategories asciiCase (js ''  Immortality pill found!  ''))"
    by (simp add: spec_fakeCategories_def spec_fires_iff hello_world_trim hello_world_lower
        hello_world_categories)
  have struct: "structuralFake asciiCase (trim (js ''Hello world!'')) \<le>
     structuralFake asciiCase (trim (js ''  Immortality pill found!  ''))"
    by (simp only: hello_world_state(5) immortality_pill_state(5))
  have trust: "trustScore (scoreState asciiCase (js ''Hello world!'')) =
     trustScore (scoreState asciiCase (js ''  Immortality pill found!  ''))"
    by (simp only: hello_world_state(3) immortality_pill_state(3))
  have lab: "label (detectHeadline asciiCase (js ''Hello world!'')) = Fake"
    by (simp add: label_detectHeadline hello_world_state)
  note mono = fake_monotone [OF hello_world_state(1) immortality_pill_state(1) cats struct trust]
  from mono have le: "fakeScore (scoreState asciiCase (js ''Hello world!'')) \<le>
     fakeScore (scoreState asciiCase (js ''  Immortality pill found!  ''))"
    by blast
  from mono lab
  have "label (detectHeadline asciiCase (js ''  Immortality pill found!  '')) \<noteq> Trustworthy"
    by blast
  with le hello_world_state(1) immortality_pill_state(1) cats struct trust lab
  show ?thesis
    by blast
qed

end
